theory Spec2Isabelle
  imports Main
begin

section \<open>Errors\<close>

text \<open>
  The error values raised by the entity manager and its collaborators.
  \<open>Error msg\<close> is JavaScript's plain \<open>new Error(msg)\<close>; the other constructors are the
  error classes of the repository.  \<open>EntityNotFoundError\<close> and
  \<open>EntityMetadataNotFoundError\<close> carry the message their constructors compute.
\<close>

datatype error =
    Error string
  | QueryRunnerProviderAlreadyReleasedError
  | EntityNotFoundError string
  | EntityMetadataNotFoundError string

section \<open>Transaction lifecycle (\<open>transaction\<close> of the entity manager)\<close>

text \<open>
  The query runner and the connection are collaborators that are not part of the
  sources; their operations are parameters.  A query runner is named by a number, the
  world \<open>'w\<close> holds the state of every runner and of the storage.  Every asynchronous
  operation may reject: it returns \<open>Some e\<close> for a rejection with \<open>e\<close> and the world it
  leaves behind.
\<close>

record 'w Connection =
  driverIsMongo :: bool
  createQueryRunner :: "'w \<Rightarrow> (error + nat) \<times> 'w"
  isReleased :: "nat \<Rightarrow> 'w \<Rightarrow> bool"
  isTransactionActive :: "nat \<Rightarrow> 'w \<Rightarrow> bool"
  startTransaction :: "nat \<Rightarrow> string option \<Rightarrow> 'w \<Rightarrow> error option \<times> 'w"
  commitTransaction :: "nat \<Rightarrow> 'w \<Rightarrow> error option \<times> 'w"
  rollbackTransaction :: "nat \<Rightarrow> 'w \<Rightarrow> error option \<times> 'w"
  release :: "nat \<Rightarrow> 'w \<Rightarrow> error option \<times> 'w"
  observerExecute :: "'w \<Rightarrow> error option \<times> 'w"

text \<open>The calls the transaction method itself makes on its collaborators, in order.\<close>

datatype call =
    CreateQueryRunner
  | StartTransaction nat "string option"
  | RunInTransaction nat
  | CommitTransaction nat
  | ObserverExecute
  | RollbackTransaction nat
  | Release nat

text \<open>
  The first argument of \<open>transaction\<close> is an isolation level (a string) or the callback;
  the second one, when present, is the callback.  The callback receives the manager
  of the query runner (here: the runner) and may succeed with a value or fail.
\<close>

datatype 'f targ = IsolationArg string | CallbackArg 'f

type_synonym ('w, 'a) callback = "nat \<Rightarrow> 'w \<Rightarrow> (error + 'a) \<times> 'w"

type_synonym ('w, 'a) outcome = "(error + 'a) \<times> call list \<times> 'w"

text \<open>The body of the \<open>try\<close> block.  \<open>if (isolation)\<close> is false for the empty string.\<close>

definition transaction_try ::
  "'w Connection \<Rightarrow> nat \<Rightarrow> string option \<Rightarrow> ('w, 'a) callback \<Rightarrow> 'w \<Rightarrow> ('w, 'a) outcome" where
  "transaction_try conn qr isolation runInTransaction w =
     (let iso = (case isolation of
                   None \<Rightarrow> None
                 | Some s \<Rightarrow> (if s = [] then None else Some s))
      in case startTransaction conn qr iso w of
        (Some e, w1) \<Rightarrow> (Inl e, [StartTransaction qr iso], w1)
      | (None, w1) \<Rightarrow>
          (case runInTransaction qr w1 of
             (Inl e, w2) \<Rightarrow> (Inl e, [StartTransaction qr iso, RunInTransaction qr], w2)
           | (Inr result, w2) \<Rightarrow>
               (case commitTransaction conn qr w2 of
                  (Some e, w3) \<Rightarrow>
                    (Inl e, [StartTransaction qr iso, RunInTransaction qr,
                             CommitTransaction qr], w3)
                | (None, w3) \<Rightarrow>
                    (case observerExecute conn w3 of
                       (Some e, w4) \<Rightarrow>
                         (Inl e, [StartTransaction qr iso, RunInTransaction qr,
                                  CommitTransaction qr, ObserverExecute], w4)
                     | (None, w4) \<Rightarrow>
                         (Inr result, [StartTransaction qr iso, RunInTransaction qr,
                                       CommitTransaction qr, ObserverExecute], w4)))))"

text \<open>
  The \<open>catch\<close> block: roll back, drop whatever the rollback throws, rethrow \<open>err\<close>.
\<close>

definition transaction_catch ::
  "'w Connection \<Rightarrow> nat \<Rightarrow> ('w, 'a) outcome \<Rightarrow> ('w, 'a) outcome" where
  "transaction_catch conn qr out =
     (case out of
        (Inr result, tr, w) \<Rightarrow> (Inr result, tr, w)
      | (Inl err, tr, w) \<Rightarrow>
          (case rollbackTransaction conn qr w of
             (rollbackError, w') \<Rightarrow> (Inl err, tr @ [RollbackTransaction qr], w')))"

text \<open>
  The \<open>finally\<close> block: a runner created by this call is released.  An \<open>await\<close> that
  rejects inside \<open>finally\<close> replaces the pending result of the \<open>try\<close> statement.
\<close>

definition transaction_finally ::
  "'w Connection \<Rightarrow> nat option \<Rightarrow> nat \<Rightarrow> ('w, 'a) outcome \<Rightarrow> ('w, 'a) outcome" where
  "transaction_finally conn thisQueryRunner qr out =
     (case out of
        (res, tr, w) \<Rightarrow>
          (if thisQueryRunner = None
           then (case release conn qr w of
                   (Some e, w') \<Rightarrow> (Inl e, tr @ [Release qr], w')
                 | (None, w') \<Rightarrow> (res, tr @ [Release qr], w'))
           else (res, tr, w)))"

definition transaction ::
  "'w Connection \<Rightarrow> nat option \<Rightarrow> ('w, 'a) callback targ \<Rightarrow> ('w, 'a) callback option
     \<Rightarrow> 'w \<Rightarrow> ('w, 'a) outcome" where
  "transaction conn thisQueryRunner isolationOrRunInTransaction runInTransactionParam w =
     (let isolation = (case isolationOrRunInTransaction of
                         IsolationArg s \<Rightarrow> Some s
                       | CallbackArg f \<Rightarrow> None);
          runInTransaction = (case isolationOrRunInTransaction of
                                CallbackArg f \<Rightarrow> Some f
                              | IsolationArg s \<Rightarrow> runInTransactionParam)
      in case runInTransaction of
        None \<Rightarrow>
          (Inl (Error ''Transaction method requires callback in second paramter if isolation level is supplied.''),
           [], w)
      | Some run \<Rightarrow>
          if driverIsMongo conn
          then (Inl (Error ''Transactions aren't supported by MongoDB.''), [], w)
          else if (case thisQueryRunner of None \<Rightarrow> False | Some r \<Rightarrow> isReleased conn r w)
          then (Inl QueryRunnerProviderAlreadyReleasedError, [], w)
          else if (case thisQueryRunner of
                     None \<Rightarrow> False
                   | Some r \<Rightarrow> isTransactionActive conn r w)
          then (Inl (Error ''Cannot start transaction because its already started''), [], w)
          else
            (case (case thisQueryRunner of
                     Some r \<Rightarrow> (Inr r, [], w)
                   | None \<Rightarrow> (case createQueryRunner conn w of
                                (c, w0) \<Rightarrow> (c, [CreateQueryRunner], w0))) of
               (Inl e, tr0, w0) \<Rightarrow> (Inl e, tr0, w0)
             | (Inr qr, tr0, w0) \<Rightarrow>
                 (case transaction_finally conn thisQueryRunner qr
                         (transaction_catch conn qr
                            (transaction_try conn qr isolation run w0)) of
                    (res, tr, w') \<Rightarrow> (res, tr0 @ tr, w'))))"

text \<open>
  The isolation level that reaches \<open>startTransaction\<close>: the first argument when it is
  a non-empty string (lines \<open>const isolation = ...\<close> and \<open>if (isolation)\<close> together).
\<close>

definition transaction_isolation :: "'f targ \<Rightarrow> string option" where
  "transaction_isolation a =
     (case a of
        IsolationArg s \<Rightarrow> (if s = [] then None else Some s)
      | CallbackArg f \<Rightarrow> None)"

text \<open>
  A sample connection with one runner, number 0.  The world is the pair of the
  runner's flags (transaction active, released); the rollback and the release answer
  with the given results.
\<close>

definition sampleConnection ::
  "error option \<Rightarrow> error option \<Rightarrow> (bool \<times> bool) Connection" where
  "sampleConnection rollbackResult releaseResult =
     \<lparr> driverIsMongo = False,
       createQueryRunner = (\<lambda>w. (Inr 0, w)),
       isReleased = (\<lambda>r w. snd w),
       isTransactionActive = (\<lambda>r w. fst w),
       startTransaction = (\<lambda>r i w. (None, (True, snd w))),
       commitTransaction = (\<lambda>r w. (None, (False, snd w))),
       rollbackTransaction = (\<lambda>r w. (rollbackResult, (False, snd w))),
       release = (\<lambda>r w. (releaseResult, (fst w, True))),
       observerExecute = (\<lambda>w. (None, w)) \<rparr>"

definition failingCallback :: "(bool \<times> bool, nat) callback" where
  "failingCallback qr w = (Inl (Error ''callback failed''), w)"

section \<open>JavaScript values and entity targets\<close>

text \<open>
  The values the find, update and delete operations receive as criteria and options.
  Numbers are integers here; a \<open>Date\<close> is its time value; an object is the list of its
  own properties in insertion order.
\<close>

datatype jsval =
    JUndefined
  | JNull
  | JBool bool
  | JStr string
  | JNum int
  | JDate int
  | JArr "jsval list"
  | JObj "(string \<times> jsval) list"

text \<open>\<open>if (v)\<close>: the falsy values are undefined, null, false, the empty string and 0.\<close>

fun truthy :: "jsval \<Rightarrow> bool" where
  "truthy JUndefined = False"
| "truthy JNull = False"
| "truthy (JBool b) = b"
| "truthy (JStr s) = (s \<noteq> [])"
| "truthy (JNum n) = (n \<noteq> 0)"
| "truthy (JDate t) = True"
| "truthy (JArr xs) = True"
| "truthy (JObj ps) = True"

text \<open>\<open>v instanceof Object\<close>: objects, arrays and dates, no primitive value.\<close>

fun instanceofObject :: "jsval \<Rightarrow> bool" where
  "instanceofObject (JDate t) = True"
| "instanceofObject (JArr xs) = True"
| "instanceofObject (JObj ps) = True"
| "instanceofObject v = False"

text \<open>\<open>{...ps, k: v}\<close>: an own property keeps its place, a new one goes last.\<close>

definition objSet :: "(string \<times> jsval) list \<Rightarrow> string \<Rightarrow> jsval \<Rightarrow> (string \<times> jsval) list" where
  "objSet ps k v =
     (if k \<in> fst ` set ps
      then map (\<lambda>p. if fst p = k then (k, v) else p) ps
      else ps @ [(k, v)])"

text \<open>
  An entity target: a class (a function, with its name), an \<open>EntitySchema\<close> (with
  \<open>options.name\<close>, which may be absent), a name, or an object with a \<open>name\<close>.
\<close>

datatype EntityTarget =
    TFunction string
  | TSchema "string option"
  | TString string
  | TObject string

section \<open>Bulk operations by criteria (\<open>update\<close>, \<open>delete\<close>, \<open>softDelete\<close>, \<open>restore\<close>)\<close>

text \<open>
  What the query builder chain has assembled when \<open>execute()\<close> is called.  The
  execution itself belongs to the query builder and the driver: it is the parameter
  \<open>exec\<close>, which may reject and may change the storage \<open>'s\<close>.  Each operation returns
  its result, the queries it built, and the storage.
\<close>

datatype QueryKind = UpdateQuery | DeleteQuery | SoftDeleteQuery | RestoreQuery

datatype WhereClause = WhereInIds jsval | Where jsval

record CriteriaQuery =
  cq_kind :: QueryKind
  cq_target :: EntityTarget
  cq_set :: "jsval option"
  cq_where :: WhereClause

type_synonym ('s, 'r) executor = "CriteriaQuery \<Rightarrow> 's \<Rightarrow> (error + 'r) \<times> 's"

type_synonym ('s, 'r) criteria_outcome = "(error + 'r) \<times> CriteriaQuery list \<times> 's"

definition runQuery :: "('s, 'r) executor \<Rightarrow> CriteriaQuery \<Rightarrow> 's \<Rightarrow> ('s, 'r) criteria_outcome" where
  "runQuery exec q s = (case exec q s of (res, s') \<Rightarrow> (res, [q], s'))"

text \<open>\<open>Array.isArray(criteria) && criteria.length === 0\<close>\<close>

fun isEmptyArray :: "jsval \<Rightarrow> bool" where
  "isEmptyArray (JArr xs) = (xs = [])"
| "isEmptyArray v = False"

text \<open>
  \<open>typeof criteria === "string" || typeof criteria === "number" ||
  criteria instanceof Date || Array.isArray(criteria)\<close>
\<close>

fun isIdCriteria :: "jsval \<Rightarrow> bool" where
  "isIdCriteria (JStr s) = True"
| "isIdCriteria (JNum n) = True"
| "isIdCriteria (JDate t) = True"
| "isIdCriteria (JArr xs) = True"
| "isIdCriteria v = False"

definition update ::
  "('s, 'r) executor \<Rightarrow> EntityTarget \<Rightarrow> jsval \<Rightarrow> jsval \<Rightarrow> 's \<Rightarrow> ('s, 'r) criteria_outcome" where
  "update exec target criteria partialEntity s =
     (if criteria = JUndefined \<or> criteria = JNull \<or> criteria = JStr [] \<or> isEmptyArray criteria
      then (Inl (Error ''Empty criteria(s) are not allowed for the update method.''), [], s)
      else if isIdCriteria criteria
      then runQuery exec \<lparr> cq_kind = UpdateQuery, cq_target = target,
                            cq_set = Some partialEntity, cq_where = WhereInIds criteria \<rparr> s
      else runQuery exec \<lparr> cq_kind = UpdateQuery, cq_target = target,
                            cq_set = Some partialEntity, cq_where = Where criteria \<rparr> s)"

definition delete ::
  "('s, 'r) executor \<Rightarrow> EntityTarget \<Rightarrow> jsval \<Rightarrow> 's \<Rightarrow> ('s, 'r) criteria_outcome" where
  "delete exec targetOrEntity criteria s =
     (if criteria = JUndefined \<or> criteria = JNull \<or> criteria = JStr [] \<or> isEmptyArray criteria
      then (Inl (Error ''Empty criteria(s) are not allowed for the delete method.''), [], s)
      else if isIdCriteria criteria
      then runQuery exec \<lparr> cq_kind = DeleteQuery, cq_target = targetOrEntity,
                            cq_set = None, cq_where = WhereInIds criteria \<rparr> s
      else runQuery exec \<lparr> cq_kind = DeleteQuery, cq_target = targetOrEntity,
                            cq_set = None, cq_where = Where criteria \<rparr> s)"

definition softDelete ::
  "('s, 'r) executor \<Rightarrow> EntityTarget \<Rightarrow> jsval \<Rightarrow> 's \<Rightarrow> ('s, 'r) criteria_outcome" where
  "softDelete exec targetOrEntity criteria s =
     (if criteria = JUndefined \<or> criteria = JNull \<or> criteria = JStr [] \<or> isEmptyArray criteria
      then (Inl (Error ''Empty criteria(s) are not allowed for the delete method.''), [], s)
      else if isIdCriteria criteria
      then runQuery exec \<lparr> cq_kind = SoftDeleteQuery, cq_target = targetOrEntity,
                            cq_set = None, cq_where = WhereInIds criteria \<rparr> s
      else runQuery exec \<lparr> cq_kind = SoftDeleteQuery, cq_target = targetOrEntity,
                            cq_set = None, cq_where = Where criteria \<rparr> s)"

definition restore ::
  "('s, 'r) executor \<Rightarrow> EntityTarget \<Rightarrow> jsval \<Rightarrow> 's \<Rightarrow> ('s, 'r) criteria_outcome" where
  "restore exec targetOrEntity criteria s =
     (if criteria = JUndefined \<or> criteria = JNull \<or> criteria = JStr [] \<or> isEmptyArray criteria
      then (Inl (Error ''Empty criteria(s) are not allowed for the delete method.''), [], s)
      else if isIdCriteria criteria
      then runQuery exec \<lparr> cq_kind = RestoreQuery, cq_target = targetOrEntity,
                            cq_set = None, cq_where = WhereInIds criteria \<rparr> s
      else runQuery exec \<lparr> cq_kind = RestoreQuery, cq_target = targetOrEntity,
                            cq_set = None, cq_where = Where criteria \<rparr> s)"


text \<open>
  A sample executor: the storage counts the statements that reached it, and every
  statement answers with that count.
\<close>

definition countingExecutor :: "(nat, nat) executor" where
  "countingExecutor q s = (Inr (Suc s), Suc s)"


section \<open>Finding one entity (\<open>findOne\<close>, \<open>findOneOrFail\<close>)\<close>

text \<open>
  What the select query builder holds when \<open>getOne()\<close> is called: the entity class and
  alias of \<open>createQueryBuilder\<close>, the object given to \<open>setFindOptions\<close>, the argument of
  \<open>where\<close>, and the arguments of \<open>andWhereInIds\<close>.
\<close>

record SelectQuery =
  sq_target :: EntityTarget
  sq_alias :: string
  sq_findOptions :: "(string \<times> jsval) list option"
  sq_where :: "jsval option"
  sq_whereInIds :: "jsval list"

text \<open>
  The collaborators of the find operations, none of them among the sources:
  \<open>connection.getMetadata(entityClass).name\<close>, which throws for a class without
  metadata; \<open>FindOptionsUtils.isFindOptions\<close>, a test on the properties of an object;
  \<open>metadata.ensureEntityIdMap\<close>; and \<open>getOne\<close> of the query builder, which reads the
  storage \<open>'s\<close> and may reject.
\<close>

record ('e, 's) FindEnv =
  getMetadataName :: "EntityTarget \<Rightarrow> error + string"
  isFindOptionsObject :: "(string \<times> jsval) list \<Rightarrow> bool"
  ensureEntityIdMap :: "EntityTarget \<Rightarrow> jsval \<Rightarrow> jsval"
  getOne :: "SelectQuery \<Rightarrow> 's \<Rightarrow> error + 'e option"

type_synonym 'e find_outcome = "(error + 'e option) \<times> SelectQuery list"

text \<open>\<open>FindOptionsUtils.isFindOptions(v)\<close>: false for whatever is not a plain object.\<close>

definition isFindOptions :: "('e, 's) FindEnv \<Rightarrow> jsval \<Rightarrow> bool" where
  "isFindOptions env v = (case v of JObj ps \<Rightarrow> isFindOptionsObject env ps | _ \<Rightarrow> False)"

fun objProps :: "jsval \<Rightarrow> (string \<times> jsval) list" where
  "objProps (JObj ps) = ps"
| "objProps v = []"

text \<open>
  \<open>typeof v === "string" || typeof v === "number" || v instanceof Date\<close>
\<close>

fun isStringNumberOrDate :: "jsval \<Rightarrow> bool" where
  "isStringNumberOrDate (JStr s) = True"
| "isStringNumberOrDate (JNum n) = True"
| "isStringNumberOrDate (JDate t) = True"
| "isStringNumberOrDate v = False"

text \<open>
  \<open>findOne\<close> of the literal entity manager, with its rest parameter \<open>...args\<close>.  The
  function is not \<open>async\<close>: its \<open>throw\<close> and the exception of \<open>getMetadata\<close> are
  synchronous; both are \<open>Inl\<close> here, as a rejected promise is.
\<close>

definition findOne ::
  "('e, 's) FindEnv \<Rightarrow> EntityTarget \<Rightarrow> jsval list \<Rightarrow> 's \<Rightarrow> 'e find_outcome" where
  "findOne env entityClass args s =
     (if length args > 2 then (Inl (Error ''Too many arguments.''), [])
      else
        let idOrOptionsOrConditions = (case args of [] \<Rightarrow> JUndefined | a # as \<Rightarrow> a);
            maybeOptions = (case args of a # b # bs \<Rightarrow> b | _ \<Rightarrow> JUndefined)
        in
          if length args \<ge> 1 \<and>
             (idOrOptionsOrConditions = JUndefined \<or> idOrOptionsOrConditions = JNull
                \<or> idOrOptionsOrConditions = JBool False)
          then (Inr None, [])
          else
            let findOptions =
                  (if isFindOptions env idOrOptionsOrConditions
                   then Some (objProps idOrOptionsOrConditions)
                   else if truthy maybeOptions \<and> isFindOptions env maybeOptions
                   then Some (objProps maybeOptions)
                   else None);
                options =
                  (if instanceofObject idOrOptionsOrConditions
                        \<and> \<not> isFindOptions env idOrOptionsOrConditions
                   then Some idOrOptionsOrConditions else None)
            in
              case getMetadataName env entityClass of
                Inl e \<Rightarrow> (Inl e, [])
              | Inr name \<Rightarrow>
                  let qb = \<lparr> sq_target = entityClass, sq_alias = name, sq_findOptions = None,
                             sq_where = None, sq_whereInIds = [] \<rparr>;
                      findById = isStringNumberOrDate idOrOptionsOrConditions;
                      findOptions' =
                        (if \<not> findById
                         then Some (objSet (case findOptions of None \<Rightarrow> [] | Some fo \<Rightarrow> fo)
                                      ''take'' (JNum 1))
                         else findOptions);
                      qb1 = (case findOptions' of
                               Some fo \<Rightarrow> qb \<lparr> sq_findOptions := Some fo \<rparr>
                             | None \<Rightarrow> qb);
                      qb2 = (case options of
                               Some opts \<Rightarrow> qb1 \<lparr> sq_where := Some opts \<rparr>
                             | None \<Rightarrow>
                                 if findById
                                 then qb1 \<lparr> sq_whereInIds := sq_whereInIds qb1 @
                                        [ensureEntityIdMap env entityClass idOrOptionsOrConditions] \<rparr>
                                 else qb1)
                  in (getOne env qb2 s, [qb2]))"

text \<open>
  \<open>findOne\<close> of the class \<open>EntityManager\<close>: two optional parameters (a parameter that
  is not passed is \<open>undefined\<close>), no test of the criteria against undefined and null,
  and \<open>take: 1\<close> only where find options were given.
\<close>

definition EntityManager_findOne ::
  "('e, 's) FindEnv \<Rightarrow> EntityTarget \<Rightarrow> jsval \<Rightarrow> jsval \<Rightarrow> 's \<Rightarrow> 'e find_outcome" where
  "EntityManager_findOne env entityClass idOrOptionsOrConditions maybeOptions s =
     (let findOptions =
            (if isFindOptions env idOrOptionsOrConditions
             then Some (objProps idOrOptionsOrConditions)
             else if truthy maybeOptions \<and> isFindOptions env maybeOptions
             then Some (objProps maybeOptions)
             else None);
          options =
            (if instanceofObject idOrOptionsOrConditions
                  \<and> \<not> isFindOptions env idOrOptionsOrConditions
             then Some idOrOptionsOrConditions else None)
      in
        case getMetadataName env entityClass of
          Inl e \<Rightarrow> (Inl e, [])
        | Inr name \<Rightarrow>
            let qb = \<lparr> sq_target = entityClass, sq_alias = name, sq_findOptions = None,
                       sq_where = None, sq_whereInIds = [] \<rparr>;
                qb1 = (case findOptions of
                         Some fo \<Rightarrow> qb \<lparr> sq_findOptions := Some (objSet fo ''take'' (JNum 1)) \<rparr>
                       | None \<Rightarrow> qb);
                qb2 = (case options of
                         Some opts \<Rightarrow> qb1 \<lparr> sq_where := Some opts \<rparr>
                       | None \<Rightarrow>
                           if isStringNumberOrDate idOrOptionsOrConditions
                           then qb1 \<lparr> sq_whereInIds := sq_whereInIds qb1 @
                                  [ensureEntityIdMap env entityClass idOrOptionsOrConditions] \<rparr>
                           else qb1)
            in (getOne env qb2 s, [qb2]))"

text \<open>
  The constructor of \<open>EntityNotFoundError\<close>.  \<open>JSON.stringify(criteria, null, 4)\<close> and
  the string conversion \<open>"" + criteria\<close> belong to the language: they are parameters.
  \<open>JSON.stringify\<close> may throw (\<open>Inl\<close>) and may answer \<open>undefined\<close> (\<open>None\<close>), which the
  template literal prints as \<open>undefined\<close>.
\<close>

record JsRuntime =
  JSON_stringify :: "jsval \<Rightarrow> error + string option"
  toString :: "jsval \<Rightarrow> string"

definition stringifyCriteria :: "JsRuntime \<Rightarrow> jsval \<Rightarrow> string option" where
  "stringifyCriteria js criteria =
     (case JSON_stringify js criteria of
        Inr r \<Rightarrow> r
      | Inl e \<Rightarrow> Some (toString js criteria))"

definition EntityNotFoundError_targetName :: "EntityTarget \<Rightarrow> string" where
  "EntityNotFoundError_targetName entityClass =
     (case entityClass of
        TSchema n \<Rightarrow> (case n of None \<Rightarrow> [] | Some x \<Rightarrow> x)
      | TFunction n \<Rightarrow> n
      | TObject n \<Rightarrow> n
      | TString t \<Rightarrow> t)"

definition EntityNotFoundError_message :: "JsRuntime \<Rightarrow> EntityTarget \<Rightarrow> jsval \<Rightarrow> string" where
  "EntityNotFoundError_message js entityClass criteria =
     ''Could not find any entity of type \"'' @ EntityNotFoundError_targetName entityClass
       @ ''\" matching: ''
       @ (case stringifyCriteria js criteria of None \<Rightarrow> ''undefined'' | Some t \<Rightarrow> t)"

text \<open>The constructor of \<open>EntityMetadataNotFoundError\<close>.\<close>

definition EntityMetadataNotFoundError_message :: "EntityTarget \<Rightarrow> string" where
  "EntityMetadataNotFoundError_message target =
     ''No metadata for \"''
       @ (case target of
            TSchema n \<Rightarrow> (case n of None \<Rightarrow> [] | Some x \<Rightarrow> x)
          | TFunction n \<Rightarrow> n
          | TObject n \<Rightarrow> n
          | TString t \<Rightarrow> t)
       @ ''\" was found.''"

text \<open>
  \<open>findOneOrFail\<close> of the literal entity manager.  It always passes both of its
  optional parameters on to \<open>findOne\<close>, so \<open>findOne\<close> sees two arguments.
\<close>

definition findOneOrFail ::
  "('e, 's) FindEnv \<Rightarrow> JsRuntime \<Rightarrow> EntityTarget \<Rightarrow> jsval \<Rightarrow> jsval \<Rightarrow> 's
     \<Rightarrow> (error + 'e) \<times> SelectQuery list" where
  "findOneOrFail env js entityClass idOrOptionsOrConditions maybeOptions s =
     (case findOne env entityClass [idOrOptionsOrConditions, maybeOptions] s of
        (Inl e, qs) \<Rightarrow> (Inl e, qs)
      | (Inr None, qs) \<Rightarrow>
          (Inl (EntityNotFoundError
                  (EntityNotFoundError_message js entityClass idOrOptionsOrConditions)), qs)
      | (Inr (Some v), qs) \<Rightarrow> (Inr v, qs))"

text \<open>
  A sample store for the scenario of the specification: the entity \<open>Post\<close> with an id,
  a title and an author.  \<open>getOne\<close> answers the first post that has the ids asked for
  and the property values of the condition object and of \<open>where\<close> in the find options.
\<close>

type_synonym Post = "int \<times> string \<times> string"

definition samplePosts :: "Post list" where
  "samplePosts = [(1, ''How to buy a cat'', ''John Doe''), (2, ''How to buy a dog'', ''Jane Doe'')]"

fun postHas :: "Post \<Rightarrow> string \<times> jsval \<Rightarrow> bool" where
  "postHas (i, t, a) (k, v) =
     (if k = ''id'' then v = JNum i
      else if k = ''title'' then v = JStr t
      else if k = ''author'' then v = JStr a
      else False)"

definition sampleGetOne :: "SelectQuery \<Rightarrow> Post list \<Rightarrow> error + Post option" where
  "sampleGetOne q posts =
     Inr (List.find
            (\<lambda>p. list_all (postHas p) (case sq_where q of None \<Rightarrow> [] | Some w \<Rightarrow> objProps w)
                \<and> list_all (postHas p)
                      (case sq_findOptions q of
                         None \<Rightarrow> []
                       | Some fo \<Rightarrow> (case map_of fo ''where'' of None \<Rightarrow> [] | Some w \<Rightarrow> objProps w))
                \<and> list_all (\<lambda>i. postHas p (''id'', i)) (sq_whereInIds q))
            posts)"

definition sampleFindEnv :: "(Post, Post list) FindEnv" where
  "sampleFindEnv =
     \<lparr> getMetadataName =
         (\<lambda>t. if t = TFunction ''Post'' then Inr ''Post''
              else Inl (EntityMetadataNotFoundError (EntityMetadataNotFoundError_message t))),
       isFindOptionsObject = (\<lambda>ps. ''where'' \<in> fst ` set ps \<or> ''take'' \<in> fst ` set ps),
       ensureEntityIdMap = (\<lambda>t v. v),
       getOne = sampleGetOne \<rparr>"

text \<open>The same environment over a store that rejects every query.\<close>

definition brokenStoreEnv :: "(Post, Post list) FindEnv" where
  "brokenStoreEnv = sampleFindEnv \<lparr> getOne := (\<lambda>q posts. Inl (Error ''connection lost'')) \<rparr>"

definition sampleRuntime :: JsRuntime where
  "sampleRuntime =
     \<lparr> JSON_stringify = (\<lambda>v. if v = JUndefined then Inr None else Inr (Some ''{...}'')),
       toString = (\<lambda>v. ''[object Object]'') \<rparr>"

section \<open>Persisting entities (\<open>save\<close>, \<open>remove\<close>, \<open>softRemove\<close>, \<open>recover\<close>)\<close>

text \<open>
  An argument of the four operations: a class, an \<open>EntitySchema\<close> (with \<open>options.name\<close>),
  a string, one entity, an array of entities, an options object, or \<open>undefined\<close> for
  a parameter that is not passed.
\<close>

datatype 'e PersistArg =
    PFunction string
  | PSchema "string option"
  | PString string
  | PEntity 'e
  | PEntities "'e list"
  | POptions jsval
  | PUndefined

text \<open>What \<open>new EntityPersistExecutor(connection, queryRunner, mode, target, entity, options)\<close> is given.\<close>

record 'e PersistRequest =
  pr_mode :: string
  pr_target :: "'e PersistArg"
  pr_entity :: "'e PersistArg"
  pr_options :: "'e PersistArg"

type_synonym ('e, 's) persist_executor = "'e PersistRequest \<Rightarrow> 's \<Rightarrow> error option \<times> 's"

type_synonym ('e, 's) persist_outcome = "(error + 'e PersistArg) \<times> 'e PersistRequest list \<times> 's"

fun isFunctionArg :: "'e PersistArg \<Rightarrow> bool" where
  "isFunctionArg (PFunction n) = True"
| "isFunctionArg a = False"

fun isSchemaArg :: "'e PersistArg \<Rightarrow> bool" where
  "isSchemaArg (PSchema n) = True"
| "isSchemaArg a = False"

fun isStringArg :: "'e PersistArg \<Rightarrow> bool" where
  "isStringArg (PString t) = True"
| "isStringArg a = False"

text \<open>\<open>target ? ... : ...\<close>: \<open>undefined\<close> and the empty string are falsy.\<close>

fun truthyArg :: "'e PersistArg \<Rightarrow> bool" where
  "truthyArg PUndefined = False"
| "truthyArg (PString t) = (t \<noteq> [])"
| "truthyArg a = True"

text \<open>\<open>Array.isArray(entity) && entity.length === 0\<close>\<close>

fun isEmptyEntities :: "'e PersistArg \<Rightarrow> bool" where
  "isEmptyEntities (PEntities es) = (es = [])"
| "isEmptyEntities a = False"

text \<open>\<open>if (target instanceof EntitySchema) target = target.options.name\<close>\<close>

fun schemaName :: "'e PersistArg \<Rightarrow> 'e PersistArg" where
  "schemaName (PSchema None) = PUndefined"
| "schemaName (PSchema (Some n)) = PString n"
| "schemaName a = a"

definition argAt :: "'e PersistArg list \<Rightarrow> nat \<Rightarrow> 'e PersistArg" where
  "argAt args i = (if i < length args then args ! i else PUndefined)"

definition runPersist ::
  "('e, 's) persist_executor \<Rightarrow> 'e PersistRequest \<Rightarrow> 'e PersistArg \<Rightarrow> 's
     \<Rightarrow> ('e, 's) persist_outcome" where
  "runPersist exec req entity s =
     (case exec req s of
        (Some e, s') \<Rightarrow> (Inl e, [req], s')
      | (None, s') \<Rightarrow> (Inr entity, [req], s'))"

definition save ::
  "('e, 's) persist_executor \<Rightarrow> 'e PersistArg list \<Rightarrow> 's \<Rightarrow> ('e, 's) persist_outcome" where
  "save exec args s =
     (let targetOrEntity = argAt args 0;
          maybeEntityOrOptions = argAt args 1;
          maybeOptions = argAt args 2;
          target = (if length args > 1 \<and> (isFunctionArg targetOrEntity
                          \<or> isSchemaArg targetOrEntity \<or> isStringArg targetOrEntity)
                    then targetOrEntity else PUndefined);
          entity = (if truthyArg target then maybeEntityOrOptions else targetOrEntity);
          options = (if truthyArg target then maybeOptions else maybeEntityOrOptions)
      in if isEmptyEntities entity then (Inr entity, [], s)
         else runPersist exec \<lparr> pr_mode = ''save'', pr_target = schemaName target,
                                 pr_entity = entity, pr_options = options \<rparr> entity s)"

definition remove ::
  "('e, 's) persist_executor \<Rightarrow> 'e PersistArg list \<Rightarrow> 's \<Rightarrow> ('e, 's) persist_outcome" where
  "remove exec args s =
     (let targetOrEntity = argAt args 0;
          maybeEntityOrOptions = argAt args 1;
          maybeOptions = argAt args 2;
          target = (if length args > 1 \<and> (isFunctionArg targetOrEntity
                          \<or> isStringArg targetOrEntity)
                    then targetOrEntity else PUndefined);
          entity = (if truthyArg target then maybeEntityOrOptions else targetOrEntity);
          options = (if truthyArg target then maybeOptions else maybeEntityOrOptions)
      in if isEmptyEntities entity then (Inr entity, [], s)
         else runPersist exec \<lparr> pr_mode = ''remove'', pr_target = target,
                                 pr_entity = entity, pr_options = options \<rparr> entity s)"

definition softRemove ::
  "('e, 's) persist_executor \<Rightarrow> 'e PersistArg list \<Rightarrow> 's \<Rightarrow> ('e, 's) persist_outcome" where
  "softRemove exec args s =
     (let targetOrEntity = argAt args 0;
          maybeEntityOrOptions = argAt args 1;
          maybeOptions = argAt args 2;
          target = (if length args > 1 \<and> (isFunctionArg targetOrEntity
                          \<or> isSchemaArg targetOrEntity \<or> isStringArg targetOrEntity)
                    then targetOrEntity else PUndefined);
          entity = (if truthyArg target then maybeEntityOrOptions else targetOrEntity);
          options = (if truthyArg target then maybeOptions else maybeEntityOrOptions)
      in if isEmptyEntities entity then (Inr entity, [], s)
         else runPersist exec \<lparr> pr_mode = ''soft-remove'', pr_target = schemaName target,
                                 pr_entity = entity, pr_options = options \<rparr> entity s)"

definition recover ::
  "('e, 's) persist_executor \<Rightarrow> 'e PersistArg list \<Rightarrow> 's \<Rightarrow> ('e, 's) persist_outcome" where
  "recover exec args s =
     (let targetOrEntity = argAt args 0;
          maybeEntityOrOptions = argAt args 1;
          maybeOptions = argAt args 2;
          target = (if length args > 1 \<and> (isFunctionArg targetOrEntity
                          \<or> isSchemaArg targetOrEntity \<or> isStringArg targetOrEntity)
                    then targetOrEntity else PUndefined);
          entity = (if truthyArg target then maybeEntityOrOptions else targetOrEntity);
          options = (if truthyArg target then maybeOptions else maybeEntityOrOptions)
      in if isEmptyEntities entity then (Inr entity, [], s)
         else runPersist exec \<lparr> pr_mode = ''recover'', pr_target = schemaName target,
                                 pr_entity = entity, pr_options = options \<rparr> entity s)"

text \<open>A sample persist executor: the storage counts the executors that ran.\<close>

definition countingPersistExecutor :: "(nat, nat) persist_executor" where
  "countingPersistExecutor req s = (None, Suc s)"


section \<open>Tree repository: the query builders for descendants and ancestors\<close>

text \<open>
  The part of the entity metadata the tree repository reads.  A column is given by its
  property name and path and by those of the column it references.  The tree type is
  absent for an entity that is not a tree.  \<open>treeChildrenProperty\<close> is
  \<open>treeChildrenRelation.propertyName\<close>; \<open>primaryProperty\<close> and \<open>primaryDatabaseName\<close> are
  the property and the column name of \<open>primaryColumns[0]\<close>; the last two fields are
  \<open>givenDatabaseName\<close> and \<open>databaseName\<close> of \<open>treeParentRelation.joinColumns[0]\<close>.
\<close>

datatype TreeType = ClosureTable | NestedSet | MaterializedPath

record ColumnMetadata =
  propertyName :: string
  propertyPath :: string
  referencedPropertyName :: string
  referencedPropertyPath :: string

record EntityMetadata =
  treeType :: "TreeType option"
  targetName :: string
  closureJunctionTableName :: string
  closureAncestorColumns :: "ColumnMetadata list"
  closureDescendantColumns :: "ColumnMetadata list"
  nestedSetLeftColumn :: string
  nestedSetRightColumn :: string
  treeParentJoinColumns :: "ColumnMetadata list"
  materializedPathColumn :: string
  treeChildrenProperty :: string
  primaryProperty :: string
  primaryDatabaseName :: string
  treeParentGivenDatabaseName :: "string option"
  treeParentDatabaseName :: string

text \<open>
  A stored row, and an entity as the query builders read it: the values of its
  property paths.  A path without a value is \<open>NULL\<close> (\<open>undefined\<close> in an entity).
\<close>

datatype sqlval = SInt int | SText string

type_synonym ObjectLiteral = "(string \<times> sqlval) list"

text \<open>
  The conditions the builders write, as terms; \<open>renderCondition\<close> gives the text the
  source concatenates.  The sub-query of the materialized-path strategy selects the
  path of the rows with the given ids; \<open>getQuery\<close> of the query builder, which prints
  it, is a parameter.  The flag of a \<open>LIKE\<close> condition says whether the driver is an
  SQLite driver (\<open>||\<close> instead of \<open>CONCAT\<close>).
\<close>

datatype operand = Column string string | Parameter string

datatype SubQuery = SelectPath string string ObjectLiteral

datatype condition =
    Between operand operand operand
  | Equals operand operand
  | AllOf "condition list"
  | StartsWithSub operand SubQuery bool
  | SubStartsWith SubQuery operand bool

fun renderOperand :: "operand \<Rightarrow> string" where
  "renderOperand (Column a p) = a @ ''.'' @ p"
| "renderOperand (Parameter n) = '':'' @ n"

fun joinStrings :: "string \<Rightarrow> string list \<Rightarrow> string" where
  "joinStrings sep [] = []"
| "joinStrings sep [x] = x"
| "joinStrings sep (x # y # ys) = x @ sep @ joinStrings sep (y # ys)"

fun renderCondition :: "(SubQuery \<Rightarrow> string) \<Rightarrow> condition \<Rightarrow> string" where
  "renderCondition getQuery (Between x lo hi) =
     renderOperand x @ '' BETWEEN '' @ renderOperand lo @ '' AND '' @ renderOperand hi"
| "renderCondition getQuery (Equals a b) = renderOperand a @ '' = '' @ renderOperand b"
| "renderCondition getQuery (AllOf cs) =
     joinStrings '' AND '' (map (renderCondition getQuery) cs)"
| "renderCondition getQuery (StartsWithSub x sub sqlite) =
     (if sqlite then renderOperand x @ '' LIKE '' @ getQuery sub @ '' || '' @ [CHR 0x27, CHR ''%'', CHR 0x27]
      else renderOperand x @ '' LIKE CONCAT('' @ getQuery sub @ '', ''
             @ [CHR 0x27, CHR ''%'', CHR 0x27] @ '')'')"
| "renderCondition getQuery (SubStartsWith sub x sqlite) =
     (if sqlite then getQuery sub @ '' LIKE '' @ renderOperand x @ '' || '' @ [CHR 0x27, CHR ''%'', CHR 0x27]
      else getQuery sub @ '' LIKE CONCAT('' @ renderOperand x @ '', ''
             @ [CHR 0x27, CHR ''%'', CHR 0x27] @ '')'')"

text \<open>
  The query a builder returns: the alias of the repository's entity, the inner join
  (entity or table, its alias, the join condition), the \<open>WHERE\<close> condition and the
  parameters.
\<close>

record TreeQuery =
  tq_alias :: string
  tq_join :: "(string \<times> string \<times> condition) option"
  tq_where :: condition
  tq_parameters :: "(string \<times> sqlval option) list"

text \<open>
  The collaborators: \<open>driver.escape\<close>, whether the driver is an SQLite driver, and
  \<open>metadata.getEntityIdMap\<close>.
\<close>

record TreeEnv =
  escape :: "string \<Rightarrow> string"
  driverIsSqlite :: bool
  getEntityIdMap :: "ObjectLiteral \<Rightarrow> ObjectLiteral"

text \<open>\<open>parameters[name] = value\<close>\<close>

definition setParameter ::
  "(string \<times> sqlval option) list \<Rightarrow> string \<Rightarrow> sqlval option \<Rightarrow> (string \<times> sqlval option) list" where
  "setParameter ps k v =
     (if k \<in> fst ` set ps
      then map (\<lambda>p. if fst p = k then (k, v) else p) ps
      else ps @ [(k, v)])"

text \<open>\<open>path.replace(".", "_")\<close>: a string pattern replaces the first occurrence only.\<close>

fun replaceFirstDot :: "string \<Rightarrow> string" where
  "replaceFirstDot [] = []"
| "replaceFirstDot (c # cs) = (if c = CHR ''.'' then CHR ''_'' # cs else c # replaceFirstDot cs)"

text \<open>\<open>column.getEntityValue(entity)\<close>\<close>

definition getEntityValue :: "string \<Rightarrow> ObjectLiteral \<Rightarrow> sqlval option" where
  "getEntityValue path entity = map_of entity path"

text \<open>The parameters of the nested-set builders, one per join column of the parent relation.\<close>

definition nestedSetParameters ::
  "EntityMetadata \<Rightarrow> ObjectLiteral \<Rightarrow> (string \<times> sqlval option) list" where
  "nestedSetParameters md entity =
     foldl (\<lambda>ps joinColumn.
              setParameter ps (replaceFirstDot (referencedPropertyPath joinColumn))
                (getEntityValue (referencedPropertyPath joinColumn) entity))
       [] (treeParentJoinColumns md)"

definition nestedSetKeyCondition :: "EntityMetadata \<Rightarrow> condition" where
  "nestedSetKeyCondition md =
     AllOf (map (\<lambda>joinColumn.
                   Equals (Column ''joined'' (referencedPropertyPath joinColumn))
                          (Parameter (replaceFirstDot (referencedPropertyPath joinColumn))))
              (treeParentJoinColumns md))"

definition createDescendantsQueryBuilder ::
  "TreeEnv \<Rightarrow> EntityMetadata \<Rightarrow> string \<Rightarrow> string \<Rightarrow> ObjectLiteral \<Rightarrow> error + TreeQuery" where
  "createDescendantsQueryBuilder env md alias closureTableAlias entity =
     (if treeType md = Some ClosureTable then
        let joinCondition =
              AllOf (map (\<lambda>column.
                       Equals (Column (escape env closureTableAlias) (escape env (propertyPath column)))
                              (Column (escape env alias) (escape env (referencedPropertyPath column))))
                     (closureDescendantColumns md));
            parameters =
              foldl (\<lambda>ps column. setParameter ps (referencedPropertyName column)
                                     (getEntityValue (referencedPropertyPath column) entity))
                [] (closureAncestorColumns md);
            whereCondition =
              AllOf (map (\<lambda>column.
                       Equals (Column (escape env closureTableAlias) (escape env (propertyPath column)))
                              (Parameter (referencedPropertyName column)))
                     (closureAncestorColumns md))
        in Inr \<lparr> tq_alias = alias,
                 tq_join = Some (closureJunctionTableName md, closureTableAlias, joinCondition),
                 tq_where = whereCondition, tq_parameters = parameters \<rparr>
      else if treeType md = Some NestedSet then
        let whereCondition =
              Between (Column alias (nestedSetLeftColumn md))
                      (Column ''joined'' (nestedSetLeftColumn md))
                      (Column ''joined'' (nestedSetRightColumn md));
            parameters = nestedSetParameters md entity;
            joinCondition = nestedSetKeyCondition md
        in Inr \<lparr> tq_alias = alias,
                 tq_join = Some (targetName md, ''joined'', whereCondition),
                 tq_where = joinCondition, tq_parameters = parameters \<rparr>
      else if treeType md = Some MaterializedPath then
        Inr \<lparr> tq_alias = alias, tq_join = None,
              tq_where = StartsWithSub (Column alias (materializedPathColumn md))
                           (SelectPath (targetName md) (materializedPathColumn md)
                              (getEntityIdMap env entity))
                           (driverIsSqlite env),
              tq_parameters = [] \<rparr>
      else Inl (Error ''Supported only in tree entities''))"

definition createAncestorsQueryBuilder ::
  "TreeEnv \<Rightarrow> EntityMetadata \<Rightarrow> string \<Rightarrow> string \<Rightarrow> ObjectLiteral \<Rightarrow> error + TreeQuery" where
  "createAncestorsQueryBuilder env md alias closureTableAlias entity =
     (if treeType md = Some ClosureTable then
        let joinCondition =
              AllOf (map (\<lambda>column.
                       Equals (Column closureTableAlias (propertyPath column))
                              (Column alias (referencedPropertyPath column)))
                     (closureAncestorColumns md));
            parameters =
              foldl (\<lambda>ps column. setParameter ps (referencedPropertyName column)
                                     (getEntityValue (referencedPropertyPath column) entity))
                [] (closureDescendantColumns md);
            whereCondition =
              AllOf (map (\<lambda>column.
                       Equals (Column closureTableAlias (propertyPath column))
                              (Parameter (referencedPropertyName column)))
                     (closureDescendantColumns md))
        in Inr \<lparr> tq_alias = alias,
                 tq_join = Some (closureJunctionTableName md, closureTableAlias, joinCondition),
                 tq_where = whereCondition, tq_parameters = parameters \<rparr>
      else if treeType md = Some NestedSet then
        let joinCondition =
              Between (Column ''joined'' (nestedSetLeftColumn md))
                      (Column alias (nestedSetLeftColumn md))
                      (Column alias (nestedSetRightColumn md));
            parameters = nestedSetParameters md entity;
            whereCondition = nestedSetKeyCondition md
        in Inr \<lparr> tq_alias = alias,
                 tq_join = Some (targetName md, ''joined'', joinCondition),
                 tq_where = whereCondition, tq_parameters = parameters \<rparr>
      else if treeType md = Some MaterializedPath then
        Inr \<lparr> tq_alias = alias, tq_join = None,
              tq_where = SubStartsWith
                           (SelectPath (targetName md) (materializedPathColumn md)
                              (getEntityIdMap env entity))
                           (Column alias (materializedPathColumn md))
                           (driverIsSqlite env),
              tq_parameters = [] \<rparr>
      else Inl (Error ''Supported only in tree entities''))"

subsection \<open>What a query selects\<close>
















section \<open>Tree repository: building the tree of descendants\<close>

text \<open>
  Entities are JavaScript objects that the functions change in place, and a child
  attached to its parent is the object that also stands in the list of fetched
  entities.  An entity is therefore an address into a heap of objects; an object is
  the list of its properties; the value of a relation property is the list of the
  addresses it holds.
\<close>

datatype pval = PUndef | PNull | PNum int | PStr string | PRefs "nat list"

type_synonym EntityObject = "(string \<times> pval) list"

type_synonym heap = "nat \<Rightarrow> EntityObject"

text \<open>\<open>obj[k]\<close>: a property the object does not have reads as \<open>undefined\<close>.\<close>

definition getProp :: "EntityObject \<Rightarrow> string \<Rightarrow> pval" where
  "getProp obj k = (case map_of obj k of None \<Rightarrow> PUndef | Some v \<Rightarrow> v)"

text \<open>\<open>obj[k] = v\<close>\<close>

definition setProp :: "EntityObject \<Rightarrow> string \<Rightarrow> pval \<Rightarrow> EntityObject" where
  "setProp obj k v =
     (if k \<in> fst ` set obj
      then map (\<lambda>p. if fst p = k then (k, v) else p) obj
      else obj @ [(k, v)])"

record RelationMap =
  rm_id :: pval
  rm_parentId :: pval

text \<open>
  \<open>createRelationMaps\<close>: the id and the parent id of every raw result.
  \<open>driver.prepareHydratedValue\<close> is a parameter.  \<open>givenDatabaseName || databaseName\<close>
  takes the second name when the first is absent or empty.
\<close>

definition createRelationMaps ::
  "(pval \<Rightarrow> pval) \<Rightarrow> EntityMetadata \<Rightarrow> string \<Rightarrow> EntityObject list \<Rightarrow> RelationMap list" where
  "createRelationMaps prepareHydratedValue md alias rawResults =
     map (\<lambda>rawResult.
            let joinColumnName =
                  (case treeParentGivenDatabaseName md of
                     None \<Rightarrow> treeParentDatabaseName md
                   | Some n \<Rightarrow> (if n = [] then treeParentDatabaseName md else n));
                id' = getProp rawResult (alias @ ''_'' @ primaryDatabaseName md);
                parentId = getProp rawResult (alias @ ''_'' @ joinColumnName)
            in \<lparr> rm_id = prepareHydratedValue id',
                 rm_parentId = prepareHydratedValue parentId \<rparr>)
       rawResults"

text \<open>
  \<open>buildChildrenEntityTree\<close>.  The recursion follows the relation maps and has no
  bound of its own (a row that is its own ancestor makes it run forever), so the
  function takes fuel and answers \<open>None\<close> when the fuel is used up.  The parent id
  of the node is read through \<open>primaryColumns[0]\<close>; the id of a candidate is read
  from its property \<open>id\<close>, as the source writes \<open>entity.id\<close>.  \<open>forEach\<close> walks the
  array that was just assigned.
\<close>

fun buildChildrenEntityTree ::
  "nat \<Rightarrow> EntityMetadata \<Rightarrow> nat \<Rightarrow> nat list \<Rightarrow> RelationMap list \<Rightarrow> heap \<Rightarrow> heap option" where
  "buildChildrenEntityTree 0 md entity entities relationMaps h = None"
| "buildChildrenEntityTree (Suc fuel) md entity entities relationMaps h =
     (let childProperty = treeChildrenProperty md;
          parentEntityId = getProp (h entity) (primaryProperty md);
          childRelationMaps = filter (\<lambda>relationMap. rm_parentId relationMap = parentEntityId)
                                relationMaps;
          childIds = set (map rm_id childRelationMaps);
          children = filter (\<lambda>e. getProp (h e) ''id'' \<in> childIds) entities;
          h1 = h (entity := setProp (h entity) childProperty (PRefs children))
      in fold (\<lambda>childEntity acc.
                 case acc of
                   None \<Rightarrow> None
                 | Some h' \<Rightarrow> buildChildrenEntityTree fuel md childEntity entities relationMaps h')
           children (Some h1))"

text \<open>
  \<open>findDescendantsTree\<close>, from the point where \<open>getRawAndEntities()\<close> has resolved
  with the fetched entities and the raw results.
\<close>

definition findDescendantsTree ::
  "nat \<Rightarrow> (pval \<Rightarrow> pval) \<Rightarrow> EntityMetadata \<Rightarrow> nat \<Rightarrow> nat list \<times> EntityObject list \<Rightarrow> heap
     \<Rightarrow> heap option" where
  "findDescendantsTree fuel prepareHydratedValue md entity entitiesAndScalars h =
     (let relationMaps =
            createRelationMaps prepareHydratedValue md ''treeEntity'' (snd entitiesAndScalars)
      in buildChildrenEntityTree fuel md entity (fst entitiesAndScalars) relationMaps h)"

text \<open>
  What one call assigns to the children property of node \<open>n\<close>, read off the heap
  \<open>h\<close>; the relation between a node and the entities so assigned; and the state of a
  heap in which the nodes of \<open>S\<close>, and no others, have received their children.
\<close>

definition childrenOf ::
  "EntityMetadata \<Rightarrow> nat list \<Rightarrow> RelationMap list \<Rightarrow> heap \<Rightarrow> nat \<Rightarrow> nat list" where
  "childrenOf md entities relationMaps h n =
     filter (\<lambda>e. getProp (h e) ''id''
                  \<in> set (map rm_id
                        (filter (\<lambda>relationMap.
                                   rm_parentId relationMap = getProp (h n) (primaryProperty md))
                           relationMaps)))
       entities"

definition childRel ::
  "EntityMetadata \<Rightarrow> nat list \<Rightarrow> RelationMap list \<Rightarrow> heap \<Rightarrow> (nat \<times> nat) set" where
  "childRel md entities relationMaps h =
     {(n, c). c \<in> set (childrenOf md entities relationMaps h n)}"

definition treeBuilt ::
  "EntityMetadata \<Rightarrow> nat list \<Rightarrow> RelationMap list \<Rightarrow> heap \<Rightarrow> nat set \<Rightarrow> heap \<Rightarrow> bool" where
  "treeBuilt md entities relationMaps h S g =
     (\<forall>n. g n = (if n \<in> S
                  then setProp (h n) (treeChildrenProperty md)
                         (PRefs (childrenOf md entities relationMaps h n))
                  else h n))"

text \<open>
  A sample tree of two rows, a root with key 1 and its child with key 2, for an
  entity whose primary column is the property named by \<open>pk\<close>.  Address 0 is the root,
  address 1 the child.
\<close>

definition nodeMetadata :: "string \<Rightarrow> EntityMetadata" where
  "nodeMetadata pk =
     \<lparr> treeType = Some NestedSet,
       targetName = ''node'',
       closureJunctionTableName = [],
       closureAncestorColumns = [],
       closureDescendantColumns = [],
       nestedSetLeftColumn = ''nsleft'',
       nestedSetRightColumn = ''nsright'',
       treeParentJoinColumns =
         [\<lparr> propertyName = ''parent'', propertyPath = ''parent'',
             referencedPropertyName = pk, referencedPropertyPath = pk \<rparr>],
       materializedPathColumn = [],
       treeChildrenProperty = ''children'',
       primaryProperty = pk,
       primaryDatabaseName = pk,
       treeParentGivenDatabaseName = None,
       treeParentDatabaseName = ''parentId'' \<rparr>"

definition nodeHeap :: "string \<Rightarrow> heap" where
  "nodeHeap pk a =
     (if a = 0 then [(pk, PNum 1), (''name'', PStr ''root'')]
      else if a = 1 then [(pk, PNum 2), (''name'', PStr ''child'')]
      else [])"

definition nodeRawResults :: "string \<Rightarrow> EntityObject list" where
  "nodeRawResults pk =
     [[(''treeEntity_'' @ pk, PNum 1), (''treeEntity_parentId'', PNull)],
      [(''treeEntity_'' @ pk, PNum 2), (''treeEntity_parentId'', PNum 1)]]"


section \<open>Properties of the transaction method\<close>

lemma transaction_catch_try_trace:
  "transaction_catch conn qr (transaction_try conn qr isol run w) = (res, tr, w')
     \<Longrightarrow> Release q \<notin> set tr"
  by (auto simp: transaction_catch_def transaction_try_def Let_def
      split: prod.splits option.splits sum.splits if_splits)

text \<open>
  Claim C3, as the code has it.  When the callback fails with \<open>err\<close>, the method calls
  \<open>rollbackTransaction\<close> and discards whatever the rollback answers (\<open>rollbackResult\<close>
  may be an error), so the rollback error is never the one surfaced.  With a runner
  held by the manager the result is \<open>err\<close>.  With a runner created by the call the
  runner is released afterwards, and the result is \<open>err\<close> only if that release
  succeeds: a release that fails in the \<open>finally\<close> block surfaces its own error.
\<close>

theorem transaction_callback_failure:
  assumes cb: "(case a1 of CallbackArg f \<Rightarrow> Some f | IsolationArg s \<Rightarrow> a2) = Some run"
    and guards: "\<not> driverIsMongo conn"
      "\<forall>r. thisQueryRunner = Some r
           \<longrightarrow> \<not> isReleased conn r w \<and> \<not> isTransactionActive conn r w"
    and runner: "(thisQueryRunner = Some qr \<and> w0 = w)
               \<or> (thisQueryRunner = None \<and> createQueryRunner conn w = (Inr qr, w0))"
    and start: "startTransaction conn qr (transaction_isolation a1) w0 = (None, w1)"
    and fails: "run qr w1 = (Inl err, w2)"
    and rb: "rollbackTransaction conn qr w2 = (rollbackResult, w3)"
    and rel: "release conn qr w3 = (releaseResult, w4)"
  shows "transaction conn thisQueryRunner a1 a2 w =
           (if thisQueryRunner = None
            then (case releaseResult of None \<Rightarrow> Inl err | Some e \<Rightarrow> Inl e,
                  [CreateQueryRunner, StartTransaction qr (transaction_isolation a1),
                   RunInTransaction qr, RollbackTransaction qr, Release qr], w4)
            else (Inl err,
                  [StartTransaction qr (transaction_isolation a1), RunInTransaction qr,
                   RollbackTransaction qr], w3))"
  using assms
  by (auto simp: transaction_def Let_def transaction_finally_def transaction_catch_def
        transaction_try_def transaction_isolation_def
      split: option.splits targ.splits)

theorem transaction_callback_failure_witness:
  "transaction (sampleConnection (Some (Error ''rollback failed'')) None) None
       (IsolationArg ''SERIALIZABLE'') (Some failingCallback) (False, False)
     = (Inl (Error ''callback failed''),
        [CreateQueryRunner, StartTransaction 0 (Some ''SERIALIZABLE''), RunInTransaction 0,
         RollbackTransaction 0, Release 0], (False, True))"
  using transaction_callback_failure
    [where ?a1.0 = "IsolationArg ''SERIALIZABLE''" and ?a2.0 = "Some failingCallback"
      and run = failingCallback
      and conn = "sampleConnection (Some (Error ''rollback failed'')) None"
      and thisQueryRunner = None and w = "(False, False)" and qr = 0
      and ?w0.0 = "(False, False)" and ?w1.0 = "(True, False)"
      and err = "Error ''callback failed''" and ?w2.0 = "(True, False)"
      and rollbackResult = "Some (Error ''rollback failed'')" and ?w3.0 = "(False, False)"
      and releaseResult = None and ?w4.0 = "(False, True)"]
  by (simp add: sampleConnection_def failingCallback_def transaction_isolation_def)

text \<open>
  The claim as stated fails: a manager without a runner of its own, a callback that
  fails, a rollback that succeeds and a release that fails.  The caller receives the
  release error, not the callback's.
\<close>

theorem transaction_release_failure_counterexample:
  "transaction (sampleConnection None (Some (Error ''release failed''))) None
       (CallbackArg failingCallback) None (False, False)
     = (Inl (Error ''release failed''),
        [CreateQueryRunner, StartTransaction 0 None, RunInTransaction 0,
         RollbackTransaction 0, Release 0], (False, True))"
  by (simp add: transaction_def sampleConnection_def failingCallback_def
        transaction_finally_def transaction_catch_def transaction_try_def)

text \<open>
  Claim C4, as the code has it.  A manager whose runner has an active transaction
  fails at once: an error is returned, no collaborator is called and the world is
  unchanged, so the open transaction is neither reused nor joined by a second one.
  The error is the one saying the transaction is already started whenever a
  callback was passed, the driver is not MongoDB and the runner is not released;
  those three guards come first and raise their own errors.
\<close>

theorem transaction_already_active_fails_fast:
  assumes "isTransactionActive conn r w"
  shows "\<exists>e. transaction conn (Some r) a1 a2 w = (Inl e, [], w)
           \<and> ((a1 \<in> range CallbackArg \<or> a2 \<noteq> None) \<and> \<not> driverIsMongo conn
                  \<and> \<not> isReleased conn r w
                \<longrightarrow> e = Error ''Cannot start transaction because its already started'')"
  using assms
  by (auto simp: transaction_def Let_def split: option.splits targ.splits)

theorem transaction_already_active_fails_fast_witness:
  "isTransactionActive (sampleConnection None None) 0 (True, False)
   \<and> transaction (sampleConnection None None) (Some 0) (CallbackArg failingCallback) None
         (True, False)
       = (Inl (Error ''Cannot start transaction because its already started''), [],
          (True, False))"
proof -
  have a: "isTransactionActive (sampleConnection None None) 0 (True, False)"
    by (simp add: sampleConnection_def)
  from transaction_already_active_fails_fast [OF a, of "CallbackArg failingCallback" None]
  show ?thesis using a by (auto simp: sampleConnection_def)
qed

text \<open>
  The claim as stated fails: the runner has an active transaction and has been
  released; the error is the one for a released runner.
\<close>

theorem transaction_active_and_released_counterexample:
  "isTransactionActive (sampleConnection None None) 0 (True, True)
   \<and> transaction (sampleConnection None None) (Some 0) (CallbackArg failingCallback) None
         (True, True)
       = (Inl QueryRunnerProviderAlreadyReleasedError, [], (True, True))"
  by (simp add: transaction_def sampleConnection_def)

text \<open>
  Claim C8.  A manager that holds a query runner never releases a runner in
  \<open>transaction\<close>; if that runner has an active transaction when the method is called,
  the method calls nothing at all (no commit, no rollback) and leaves the world as it
  is; and a runner is released only when the manager holds none and the released
  runner is the one the method created.
\<close>

theorem transaction_runner_ownership:
  assumes "transaction conn thisQueryRunner a1 a2 w = (res, tr, w')"
  shows "(thisQueryRunner \<noteq> None \<longrightarrow> Release q \<notin> set tr)
       \<and> (thisQueryRunner = Some r \<and> isTransactionActive conn r w \<longrightarrow> tr = [] \<and> w' = w)
       \<and> (Release q \<in> set tr
            \<longrightarrow> thisQueryRunner = None \<and> fst (createQueryRunner conn w) = Inr q)"
  using assms
  by (auto simp: transaction_def Let_def transaction_finally_def
      split: prod.splits option.splits sum.splits if_splits targ.splits
      dest: transaction_catch_try_trace)

theorem transaction_runner_ownership_witness:
  "transaction (sampleConnection None None) (Some 0) (CallbackArg failingCallback) None
       (False, False)
     = (Inl (Error ''callback failed''),
        [StartTransaction 0 None, RunInTransaction 0, RollbackTransaction 0], (False, False))
   \<and> Release 0 \<notin> set [StartTransaction 0 None, RunInTransaction 0, RollbackTransaction 0]"
proof -
  have e: "transaction (sampleConnection None None) (Some 0) (CallbackArg failingCallback)
             None (False, False)
     = (Inl (Error ''callback failed''),
        [StartTransaction 0 None, RunInTransaction 0, RollbackTransaction 0], (False, False))"
    by (simp add: transaction_def sampleConnection_def failingCallback_def
        transaction_finally_def transaction_catch_def transaction_try_def)
  from transaction_runner_ownership [OF e, of 0 0] show ?thesis using e by simp
qed

text \<open>
  The other paths of the method.  When every step succeeds the result is the
  callback's value, after commit and the observers (and the release of a runner the
  method created).  With a runner held by the manager, the method answers an error
  exactly when it has called the rollback.  A failure of the observers after the
  commit is handled like any other: the rollback is called and the error returned.
\<close>

lemma transaction_success:
  assumes cb: "(case a1 of CallbackArg f \<Rightarrow> Some f | IsolationArg s \<Rightarrow> a2) = Some run"
    and guards: "\<not> driverIsMongo conn"
      "\<forall>r. thisQueryRunner = Some r
           \<longrightarrow> \<not> isReleased conn r w \<and> \<not> isTransactionActive conn r w"
    and runner: "(thisQueryRunner = Some qr \<and> w0 = w)
               \<or> (thisQueryRunner = None \<and> createQueryRunner conn w = (Inr qr, w0))"
    and start: "startTransaction conn qr (transaction_isolation a1) w0 = (None, w1)"
    and runs: "run qr w1 = (Inr result, w2)"
    and commit: "commitTransaction conn qr w2 = (None, w3)"
    and observers: "observerExecute conn w3 = (None, w4)"
    and rel: "release conn qr w4 = (releaseResult, w5)"
  shows "transaction conn thisQueryRunner a1 a2 w =
           (if thisQueryRunner = None
            then (case releaseResult of None \<Rightarrow> Inr result | Some e \<Rightarrow> Inl e,
                  [CreateQueryRunner, StartTransaction qr (transaction_isolation a1),
                   RunInTransaction qr, CommitTransaction qr, ObserverExecute, Release qr], w5)
            else (Inr result,
                  [StartTransaction qr (transaction_isolation a1), RunInTransaction qr,
                   CommitTransaction qr, ObserverExecute], w4))"
  using assms
  by (auto simp: transaction_def Let_def transaction_finally_def transaction_catch_def
        transaction_try_def transaction_isolation_def
      split: option.splits targ.splits)

lemma transaction_error_iff_rollback:
  assumes "transaction conn (Some r) a1 a2 w = (res, tr, w')" and "tr \<noteq> []"
  shows "(\<exists>e. res = Inl e) = (RollbackTransaction r \<in> set tr)"
  using assms
  by (auto simp: transaction_def Let_def transaction_finally_def transaction_catch_def
        transaction_try_def
      split: prod.splits option.splits sum.splits if_splits targ.splits)

lemma transaction_observer_failure:
  assumes cb: "(case a1 of CallbackArg f \<Rightarrow> Some f | IsolationArg s \<Rightarrow> a2) = Some run"
    and guards: "\<not> driverIsMongo conn" "\<not> isReleased conn qr w" "\<not> isTransactionActive conn qr w"
    and start: "startTransaction conn qr (transaction_isolation a1) w = (None, w1)"
    and runs: "run qr w1 = (Inr result, w2)"
    and commit: "commitTransaction conn qr w2 = (None, w3)"
    and observers: "observerExecute conn w3 = (Some err, w4)"
    and rb: "rollbackTransaction conn qr w4 = (rollbackResult, w5)"
  shows "transaction conn (Some qr) a1 a2 w =
           (Inl err,
            [StartTransaction qr (transaction_isolation a1), RunInTransaction qr,
             CommitTransaction qr, ObserverExecute, RollbackTransaction qr], w5)"
  using assms
  by (auto simp: transaction_def Let_def transaction_finally_def transaction_catch_def
        transaction_try_def transaction_isolation_def
      split: option.splits targ.splits)

section \<open>Properties of the bulk operations by criteria\<close>

text \<open>
  Claim C2.  For a criteria argument that is undefined, null, the empty string or an
  empty array, each of \<open>update\<close>, \<open>delete\<close>, \<open>softDelete\<close> and \<open>restore\<close> rejects with an
  error, builds no query and leaves the storage as it is, whatever the executor
  would do.
\<close>

theorem empty_criteria_rejected:
  assumes "criteria = JUndefined \<or> criteria = JNull \<or> criteria = JStr [] \<or> criteria = JArr []"
  shows "update exec target criteria partialEntity s
           = (Inl (Error ''Empty criteria(s) are not allowed for the update method.''), [], s)
       \<and> delete exec target criteria s
           = (Inl (Error ''Empty criteria(s) are not allowed for the delete method.''), [], s)
       \<and> softDelete exec target criteria s
           = (Inl (Error ''Empty criteria(s) are not allowed for the delete method.''), [], s)
       \<and> restore exec target criteria s
           = (Inl (Error ''Empty criteria(s) are not allowed for the delete method.''), [], s)"
  using assms by (auto simp: update_def delete_def softDelete_def restore_def)

theorem empty_criteria_rejected_witness:
  "update countingExecutor (TString ''post'') (JStr []) (JObj [(''title'', JStr ''x'')]) 0
       = (Inl (Error ''Empty criteria(s) are not allowed for the update method.''), [], 0)
   \<and> delete countingExecutor (TString ''post'') (JArr []) 0
       = (Inl (Error ''Empty criteria(s) are not allowed for the delete method.''), [], 0)"
  using empty_criteria_rejected [of "JStr []" countingExecutor "TString ''post''"
          "JObj [(''title'', JStr ''x'')]" 0]
        empty_criteria_rejected [of "JArr []" countingExecutor "TString ''post''" JUndefined 0]
  by simp

section \<open>Properties of \<open>findOne\<close> and \<open>findOneOrFail\<close>\<close>
lemmas sample_find_simps = findOne_def EntityManager_findOne_def findOneOrFail_def sampleFindEnv_def brokenStoreEnv_def
  sampleGetOne_def samplePosts_def isFindOptions_def objSet_def sampleRuntime_def
  EntityNotFoundError_message_def EntityNotFoundError_targetName_def stringifyCriteria_def
  EntityMetadataNotFoundError_message_def

text \<open>
  Claim C5.  \<open>findOne\<close> of the literal entity manager, called with undefined or null
  as the criteria argument (alone or followed by options), resolves to the absence
  marker and executes no query, for every entity class, environment and storage.
\<close>
theorem findOne_undefined_or_null:
  assumes "criteria = JUndefined \<or> criteria = JNull"
  shows "findOne env entityClass [criteria] s = (Inr None, [])
       \<and> findOne env entityClass [criteria, maybeOptions] s = (Inr None, [])"
  using assms by (auto simp: findOne_def)

theorem findOne_undefined_or_null_witness:
  "findOne sampleFindEnv (TFunction ''Post'') [JUndefined] samplePosts = (Inr None, [])
   \<and> findOne sampleFindEnv (TFunction ''Post'') [JNull, JObj [(''take'', JNum 5)]] samplePosts = (Inr None, [])"
  using findOne_undefined_or_null [of JUndefined sampleFindEnv "TFunction ''Post''" samplePosts JUndefined]
        findOne_undefined_or_null [of JNull sampleFindEnv "TFunction ''Post''" samplePosts "JObj [(''take'', JNum 5)]"]
  by simp




text \<open>
  Claim C9 does not hold of the code: the class \<open>EntityManager\<close> and the literal
  entity manager differ.  For undefined and for null as the criteria the class builds
  a query without any condition and answers the first post, where the literal manager
  resolves to the absence marker without a query; for a plain condition object the
  class sets no find options, where the literal manager sets \<open>take: 1\<close>.
\<close>
theorem EntityManager_findOne_diverges:
  "EntityManager_findOne sampleFindEnv (TFunction ''Post'') JUndefined JUndefined samplePosts
     = (Inr (Some (1, ''How to buy a cat'', ''John Doe'')),
        [\<lparr> sq_target = TFunction ''Post'', sq_alias = ''Post'', sq_findOptions = None,
            sq_where = None, sq_whereInIds = [] \<rparr>])
   \<and> findOne sampleFindEnv (TFunction ''Post'') [JUndefined] samplePosts = (Inr None, [])
   \<and> EntityManager_findOne sampleFindEnv (TFunction ''Post'') JNull JUndefined samplePosts
     = (Inr (Some (1, ''How to buy a cat'', ''John Doe'')),
        [\<lparr> sq_target = TFunction ''Post'', sq_alias = ''Post'', sq_findOptions = None,
            sq_where = None, sq_whereInIds = [] \<rparr>])
   \<and> findOne sampleFindEnv (TFunction ''Post'') [JNull] samplePosts = (Inr None, [])
   \<and> snd (EntityManager_findOne sampleFindEnv (TFunction ''Post'')
            (JObj [(''author'', JStr ''Jane Doe'')]) JUndefined samplePosts)
     = [\<lparr> sq_target = TFunction ''Post'', sq_alias = ''Post'', sq_findOptions = None,
          sq_where = Some (JObj [(''author'', JStr ''Jane Doe'')]), sq_whereInIds = [] \<rparr>]
   \<and> snd (findOne sampleFindEnv (TFunction ''Post'')
            [JObj [(''author'', JStr ''Jane Doe'')]] samplePosts)
     = [\<lparr> sq_target = TFunction ''Post'', sq_alias = ''Post'',
          sq_findOptions = Some [(''take'', JNum 1)],
          sq_where = Some (JObj [(''author'', JStr ''Jane Doe'')]), sq_whereInIds = [] \<rparr>]"
  by (simp add: sample_find_simps)

text \<open>
  Where the two do agree: when the criteria are find options; when the criteria are
  neither an id nor one of undefined, null and false, and find options follow; and
  when the criteria are an id (a string, a number or a date) that no find options
  follow.
\<close>

lemma EntityManager_findOne_agrees:
  assumes "isFindOptions env criteria
         \<or> (\<not> isStringNumberOrDate criteria \<and> criteria \<notin> {JUndefined, JNull, JBool False}
              \<and> truthy maybeOptions \<and> isFindOptions env maybeOptions)
         \<or> (isStringNumberOrDate criteria \<and> \<not> (truthy maybeOptions \<and> isFindOptions env maybeOptions))"
  shows "EntityManager_findOne env entityClass criteria maybeOptions s
           = findOne env entityClass [criteria, maybeOptions] s"
proof -
  have obj: "isFindOptions env v \<Longrightarrow> \<not> isStringNumberOrDate v \<and> v \<notin> {JUndefined, JNull, JBool False}" for v
    by (cases v) (auto simp: isFindOptions_def)
  show ?thesis
    using assms obj [of criteria]
    by (auto simp: EntityManager_findOne_def findOne_def Let_def split: sum.splits)
qed

text \<open>\<open>findOne\<close> without arguments asks for one row without any condition.\<close>

lemma findOne_without_arguments:
  assumes "getMetadataName env entityClass = Inr name"
  shows "findOne env entityClass [] s
           = (getOne env \<lparr> sq_target = entityClass, sq_alias = name,
                            sq_findOptions = Some [(''take'', JNum 1)], sq_where = None,
                            sq_whereInIds = [] \<rparr> s,
              [\<lparr> sq_target = entityClass, sq_alias = name,
                  sq_findOptions = Some [(''take'', JNum 1)], sq_where = None,
                  sq_whereInIds = [] \<rparr>])"
  using assms by (simp add: findOne_def isFindOptions_def objSet_def)

section \<open>Properties of \<open>save\<close>, \<open>remove\<close>, \<open>softRemove\<close> and \<open>recover\<close>\<close>

text \<open>
  Claim C10 does not hold of the code for \<open>remove\<close> with an \<open>EntitySchema\<close> as the
  target.  \<open>save\<close>, \<open>softRemove\<close> and \<open>recover\<close> test the first argument with
  \<open>instanceof EntitySchema\<close>; \<open>remove\<close> does not.  Given a schema and an empty array,
  \<open>remove\<close> takes the schema for the entity and the array for the options, constructs
  a persist executor, lets it run against the storage and resolves with the schema;
  the other three resolve at once with the empty array.
\<close>

theorem remove_entity_schema_empty_array:
  "remove countingPersistExecutor [PSchema (Some ''post''), PEntities []] 0
     = (Inr (PSchema (Some ''post'')),
        [\<lparr> pr_mode = ''remove'', pr_target = PUndefined,
            pr_entity = PSchema (Some ''post''), pr_options = PEntities [] \<rparr>],
        1)
   \<and> save countingPersistExecutor [PSchema (Some ''post''), PEntities []] 0
     = (Inr (PEntities []), [], 0)
   \<and> softRemove countingPersistExecutor [PSchema (Some ''post''), PEntities []] 0
     = (Inr (PEntities []), [], 0)
   \<and> recover countingPersistExecutor [PSchema (Some ''post''), PEntities []] 0
     = (Inr (PEntities []), [], 0)"
  by (simp add: remove_def save_def softRemove_def recover_def argAt_def runPersist_def
        countingPersistExecutor_def Let_def)

text \<open>
  What the four operations get right.  An empty array of entities that stands alone,
  is followed by options, or follows a target the operation recognises (a class or
  a non-empty name for all four, an \<open>EntitySchema\<close> for \<open>save\<close>, \<open>softRemove\<close> and
  \<open>recover\<close>) is resolved at once: no persist executor is constructed and the
  storage is untouched.
\<close>

lemma empty_array_resolves_immediately:
  assumes "target = PFunction n \<or> (target = PString t \<and> t \<noteq> [])"
  shows "(\<forall>args \<in> set [[PEntities []], [PEntities [], opts],
                       [target, PEntities []], [target, PEntities [], opts]].
            save exec args s = (Inr (PEntities []), [], s)
          \<and> remove exec args s = (Inr (PEntities []), [], s)
          \<and> softRemove exec args s = (Inr (PEntities []), [], s)
          \<and> recover exec args s = (Inr (PEntities []), [], s))
       \<and> (\<forall>args \<in> set [[PSchema sn, PEntities []], [PSchema sn, PEntities [], opts]].
            save exec args s = (Inr (PEntities []), [], s)
          \<and> softRemove exec args s = (Inr (PEntities []), [], s)
          \<and> recover exec args s = (Inr (PEntities []), [], s))"
  using assms
  by (auto simp: save_def remove_def softRemove_def recover_def argAt_def Let_def)

lemma empty_array_resolves_immediately_example:
  "save countingPersistExecutor [PFunction ''Post'', PEntities []] 0 = (Inr (PEntities []), [], 0)
   \<and> remove countingPersistExecutor [PEntities []] 0 = (Inr (PEntities []), [], 0)
   \<and> softRemove countingPersistExecutor [PSchema (Some ''post''), PEntities [], POptions (JObj [])] 0
       = (Inr (PEntities []), [], 0)
   \<and> recover countingPersistExecutor [PFunction ''Post'', PEntities [], POptions (JObj [])] 0
       = (Inr (PEntities []), [], 0)"
  using empty_array_resolves_immediately [where target = "PFunction ''Post''" and n = "''Post''"
          and opts = "POptions (JObj [])" and exec = countingPersistExecutor and s = 0
          and sn = "Some ''post''"]
  by simp

section \<open>Properties of the nested-set query builders\<close>






lemma nested_set_condition_text:
  "renderCondition getQuery
     (Between (Column alias (nestedSetLeftColumn md)) (Column ''joined'' (nestedSetLeftColumn md))
        (Column ''joined'' (nestedSetRightColumn md)))
   = alias @ ''.'' @ nestedSetLeftColumn md @ '' BETWEEN '' @ ''joined.'' @ nestedSetLeftColumn md
       @ '' AND joined.'' @ nestedSetRightColumn md"
  "renderCondition getQuery
     (Between (Column ''joined'' (nestedSetLeftColumn md)) (Column alias (nestedSetLeftColumn md))
        (Column alias (nestedSetRightColumn md)))
   = ''joined.'' @ nestedSetLeftColumn md @ '' BETWEEN '' @ alias @ ''.'' @ nestedSetLeftColumn md
       @ '' AND '' @ alias @ ''.'' @ nestedSetRightColumn md"
  "renderCondition getQuery (nestedSetKeyCondition md)
   = joinStrings '' AND ''
       (map (\<lambda>joinColumn. ''joined.'' @ referencedPropertyPath joinColumn @ '' = :''
               @ replaceFirstDot (referencedPropertyPath joinColumn))
          (treeParentJoinColumns md))"
  by (simp_all add: nestedSetKeyCondition_def comp_def)








text \<open>Metadata without a tree type: both builders throw.\<close>

lemma tree_builders_need_tree_type:
  assumes "treeType md = None"
  shows "createDescendantsQueryBuilder env md entityAlias closureTableAlias entity
           = Inl (Error ''Supported only in tree entities'')"
    and "createAncestorsQueryBuilder env md entityAlias closureTableAlias entity
           = Inl (Error ''Supported only in tree entities'')"
  using assms
  by (simp_all add: createDescendantsQueryBuilder_def createAncestorsQueryBuilder_def)

section \<open>Properties of the tree of descendants\<close>

text \<open>
  Claim C6 does not hold of the code for an entity whose primary column is not the
  property \<open>id\<close>.  With the primary property \<open>key\<close>, a root with key 1 and a fetched
  child whose relation map names parent 1, the root gets no children: the candidates
  are matched through their property \<open>id\<close>, which they do not have.  The same tree
  with the primary property \<open>id\<close> gets the child attached.
\<close>

theorem buildChildrenEntityTree_reads_id_property:
  "(case findDescendantsTree 3 id (nodeMetadata ''key'') 0 ([0, 1], nodeRawResults ''key'')
           (nodeHeap ''key'') of
      None \<Rightarrow> PUndef
    | Some h \<Rightarrow> getProp (h 0) ''children'') = PRefs []
   \<and> (case findDescendantsTree 3 id (nodeMetadata ''id'') 0 ([0, 1], nodeRawResults ''id'')
           (nodeHeap ''id'') of
      None \<Rightarrow> PUndef
    | Some h \<Rightarrow> getProp (h 0) ''children'') = PRefs [1]"
  by code_simp

text \<open>
  What the function does get right.  When the children property is neither \<open>id\<close>
  nor the primary property, and the relation maps are acyclic (every child has a
  smaller rank than its parent), enough fuel makes the function return, and in the
  heap it returns every node reachable from the entity holds as its children exactly
  the fetched entities the function selects for it; every other object is as before.
  For a primary property named \<open>id\<close> the selected entities are those with a relation
  map whose id is theirs and whose parent id is the node's, and no entity is taken
  twice when the fetched entities are distinct.
\<close>

lemma getProp_setProp:
  "getProp (setProp obj k v) k' = (if k' = k then v else getProp obj k')"
proof (cases "k \<in> fst ` set obj")
  case True
  have "map_of (map (\<lambda>p. if fst p = k then (k, v) else p) qs) k'
          = (if k' = k \<and> k \<in> fst ` set qs then Some v else map_of qs k')" for qs
    by (induction qs) force+
  with True show ?thesis by (simp add: setProp_def getProp_def)
next
  case False
  then have "map_of obj k = None" by (simp add: map_of_eq_None_iff)
  with False show ?thesis
    by (auto simp: setProp_def getProp_def map_add_def split: option.splits)
qed

lemma keys_replace:
  "fst ` set (map (\<lambda>p. if fst p = k then (k, v) else p) obj) = fst ` set obj"
  by (induction obj) auto

lemma setProp_setProp: "setProp (setProp obj k v) k v' = setProp obj k v'"
proof (cases "k \<in> fst ` set obj")
  case True
  have "map (\<lambda>p. if fst p = k then (k, v') else p) (map (\<lambda>p. if fst p = k then (k, v) else p) obj)
          = map (\<lambda>p. if fst p = k then (k, v') else p) obj"
    by (induction obj) auto
  moreover have "k \<in> fst ` set (map (\<lambda>p. if fst p = k then (k, v) else p) obj)"
    using True by (simp only: keys_replace)
  ultimately show ?thesis
    using True by (simp only: setProp_def if_True)
next
  case False
  then have "map (\<lambda>p. if fst p = k then (k, v') else p) obj = obj"
    by (induction obj) auto
  with False show ?thesis by (simp add: setProp_def)
qed

lemma childrenOf_treeBuilt:
  assumes "treeChildrenProperty md \<noteq> ''id''" "treeChildrenProperty md \<noteq> primaryProperty md"
    and "treeBuilt md entities rms h S g"
  shows "childrenOf md entities rms g n = childrenOf md entities rms h n"
proof -
  have "getProp (g a) k = getProp (h a) k" if "k \<noteq> treeChildrenProperty md" for a k
    using assms(3) that by (simp add: treeBuilt_def getProp_setProp)
  with assms(1,2) show ?thesis
    by (simp add: childrenOf_def)
qed

lemma treeBuilt_assign:
  assumes "treeBuilt md entities rms h S g"
  shows "treeBuilt md entities rms h (insert n S)
           (g (n := setProp (g n) (treeChildrenProperty md)
                      (PRefs (childrenOf md entities rms h n))))"
  using assms by (auto simp: treeBuilt_def setProp_setProp)

lemma reachable_unfold:
  "R\<^sup>* `` {n} = insert n (\<Union>c \<in> R `` {n}. R\<^sup>* `` {c})"
proof (intro set_eqI iffI)
  fix x assume "x \<in> R\<^sup>* `` {n}"
  then have "(n, x) \<in> R\<^sup>*" by simp
  then show "x \<in> insert n (\<Union>c \<in> R `` {n}. R\<^sup>* `` {c})"
    by (cases rule: converse_rtranclE) auto
next
  fix x assume "x \<in> insert n (\<Union>c \<in> R `` {n}. R\<^sup>* `` {c})"
  then show "x \<in> R\<^sup>* `` {n}"
    by (auto intro: converse_rtrancl_into_rtrancl)
qed

lemma build_fold:
  assumes IH: "\<And>c g S. rank c < fuel \<Longrightarrow> treeBuilt md entities rms h S g \<Longrightarrow>
                 \<exists>g'. buildChildrenEntityTree fuel md c entities rms g = Some g'
                    \<and> treeBuilt md entities rms h (S \<union> (childRel md entities rms h)\<^sup>* `` {c}) g'"
    and "\<forall>c \<in> set cs. rank c < fuel"
    and "treeBuilt md entities rms h S g"
  shows "\<exists>g'. fold (\<lambda>childEntity acc.
                     case acc of
                       None \<Rightarrow> None
                     | Some h' \<Rightarrow> buildChildrenEntityTree fuel md childEntity entities rms h')
                  cs (Some g) = Some g'
            \<and> treeBuilt md entities rms h
                 (S \<union> (\<Union>c \<in> set cs. (childRel md entities rms h)\<^sup>* `` {c})) g'"
  using assms(2,3)
proof (induction cs arbitrary: S g)
  case Nil
  then show ?case by simp
next
  case (Cons c cs)
  from Cons.prems have "rank c < fuel" by simp
  from IH [OF this Cons.prems(2)] obtain g1 where
    g1: "buildChildrenEntityTree fuel md c entities rms g = Some g1"
    and b1: "treeBuilt md entities rms h (S \<union> (childRel md entities rms h)\<^sup>* `` {c}) g1"
    by blast
  from Cons.prems have "\<forall>c \<in> set cs. rank c < fuel" by simp
  from Cons.IH [OF this b1] obtain g' where
    "fold (\<lambda>childEntity acc.
             case acc of
               None \<Rightarrow> None
             | Some h' \<Rightarrow> buildChildrenEntityTree fuel md childEntity entities rms h')
       cs (Some g1) = Some g'"
    and "treeBuilt md entities rms h
           (S \<union> (childRel md entities rms h)\<^sup>* `` {c}
              \<union> (\<Union>c \<in> set cs. (childRel md entities rms h)\<^sup>* `` {c})) g'"
    by blast
  then show ?case
    using g1 by (simp add: Un_assoc)
qed

lemma build_general:
  assumes cp: "treeChildrenProperty md \<noteq> ''id''" "treeChildrenProperty md \<noteq> primaryProperty md"
    and rank: "\<forall>n c. c \<in> set (childrenOf md entities rms h n) \<longrightarrow> rank c < rank n"
  shows "rank n < fuel \<Longrightarrow> treeBuilt md entities rms h S g \<Longrightarrow>
           \<exists>g'. buildChildrenEntityTree fuel md n entities rms g = Some g'
              \<and> treeBuilt md entities rms h (S \<union> (childRel md entities rms h)\<^sup>* `` {n}) g'"
proof (induction fuel arbitrary: n S g)
  case 0
  then show ?case by simp
next
  case (Suc fuel)
  let ?C = "childrenOf md entities rms h n"
  let ?g1 = "g (n := setProp (g n) (treeChildrenProperty md) (PRefs ?C))"
  have same: "childrenOf md entities rms g n = ?C"
    using childrenOf_treeBuilt [OF cp Suc.prems(2)] .
  have b1: "treeBuilt md entities rms h (insert n S) ?g1"
    using treeBuilt_assign [OF Suc.prems(2)] .
  have small: "\<forall>c \<in> set ?C. rank c < fuel"
    using rank Suc.prems(1) by fastforce
  from build_fold [where rank = rank and fuel = fuel and cs = ?C, OF Suc.IH small b1]
  obtain g' where
    f: "fold (\<lambda>childEntity acc.
                case acc of
                  None \<Rightarrow> None
                | Some h' \<Rightarrow> buildChildrenEntityTree fuel md childEntity entities rms h')
          ?C (Some ?g1) = Some g'"
    and b: "treeBuilt md entities rms h
              (insert n S \<union> (\<Union>c \<in> set ?C. (childRel md entities rms h)\<^sup>* `` {c})) g'"
    by blast
  have img: "childRel md entities rms h `` {n} = set ?C"
    by (auto simp: childRel_def)
  have "insert n S \<union> (\<Union>c \<in> set ?C. (childRel md entities rms h)\<^sup>* `` {c})
          = S \<union> (childRel md entities rms h)\<^sup>* `` {n}"
    by (subst (2) reachable_unfold) (simp add: img)
  with b have "treeBuilt md entities rms h (S \<union> (childRel md entities rms h)\<^sup>* `` {n}) g'"
    by simp
  moreover have "buildChildrenEntityTree (Suc fuel) md n entities rms g = Some g'"
    using f same by (simp add: Let_def childrenOf_def)
  ultimately show ?case by blast
qed

lemma buildChildrenEntityTree_builds_tree:
  assumes cp: "treeChildrenProperty md \<noteq> ''id''" "treeChildrenProperty md \<noteq> primaryProperty md"
    and rank: "\<forall>n c. c \<in> set (childrenOf md entities rms h n) \<longrightarrow> rank c < rank n"
    and fuel: "rank entity < fuel"
  shows "\<exists>h'. buildChildrenEntityTree fuel md entity entities rms h = Some h'
           \<and> (\<forall>n. h' n =
                 (if (entity, n) \<in> (childRel md entities rms h)\<^sup>*
                  then setProp (h n) (treeChildrenProperty md)
                         (PRefs (childrenOf md entities rms h n))
                  else h n))"
proof -
  have "treeBuilt md entities rms h {} h"
    by (simp add: treeBuilt_def)
  from build_general [OF cp rank fuel this]
  show ?thesis by (simp add: treeBuilt_def)
qed

lemma childrenOf_primary_id:
  assumes "primaryProperty md = ''id''"
  shows "childrenOf md entities rms h n =
           filter (\<lambda>e. \<exists>relationMap \<in> set rms.
                          rm_id relationMap = getProp (h e) ''id''
                        \<and> rm_parentId relationMap = getProp (h n) ''id'')
             entities"
proof -
  have "(getProp (h e) ''id''
           \<in> set (map rm_id (filter (\<lambda>relationMap. rm_parentId relationMap = getProp (h n) ''id'') rms)))
        = (\<exists>relationMap \<in> set rms.
             rm_id relationMap = getProp (h e) ''id''
           \<and> rm_parentId relationMap = getProp (h n) ''id'')" for e
    by (force simp: image_iff)
  with assms show ?thesis
    by (simp add: childrenOf_def)
qed

lemma childrenOf_distinct:
  "distinct entities \<Longrightarrow> distinct (childrenOf md entities rms h n)"
  by (simp add: childrenOf_def)

lemma nodeTree_children:
  "childrenOf (nodeMetadata ''id'') [0, 1]
     (createRelationMaps id (nodeMetadata ''id'') ''treeEntity'' (nodeRawResults ''id''))
     (nodeHeap ''id'') n
   = (if n = 0 then [1] else [])"
  by (simp add: childrenOf_def createRelationMaps_def nodeMetadata_def nodeRawResults_def
        nodeHeap_def getProp_def)

lemma buildChildrenEntityTree_builds_tree_example:
  "\<exists>h'. buildChildrenEntityTree 2 (nodeMetadata ''id'') 0 [0, 1]
            (createRelationMaps id (nodeMetadata ''id'') ''treeEntity'' (nodeRawResults ''id''))
            (nodeHeap ''id'') = Some h'
        \<and> getProp (h' 0) ''children'' = PRefs [1]
        \<and> getProp (h' 1) ''children'' = PRefs []"
proof -
  let ?md = "nodeMetadata ''id''"
  let ?rms = "createRelationMaps id ?md ''treeEntity'' (nodeRawResults ''id'')"
  let ?h = "nodeHeap ''id''"
  let ?rank = "\<lambda>n::nat. if n = 0 then 1 else (0::nat)"
  have cp: "treeChildrenProperty ?md \<noteq> ''id''" "treeChildrenProperty ?md \<noteq> primaryProperty ?md"
    by (simp_all add: nodeMetadata_def)
  have rank: "\<forall>n c. c \<in> set (childrenOf ?md [0, 1] ?rms ?h n) \<longrightarrow> ?rank c < ?rank n"
    by (simp only: nodeTree_children) simp
  have fuel: "?rank 0 < 2" by simp
  from buildChildrenEntityTree_builds_tree [of ?md "[0, 1]" ?rms ?h ?rank 0 2, OF cp rank fuel]
  obtain h' where
    b: "buildChildrenEntityTree 2 ?md 0 [0, 1] ?rms ?h = Some h'"
    and a: "\<forall>n. h' n =
                 (if (0, n) \<in> (childRel ?md [0, 1] ?rms ?h)\<^sup>*
                  then setProp (?h n) (treeChildrenProperty ?md)
                         (PRefs (childrenOf ?md [0, 1] ?rms ?h n))
                  else ?h n)"
    by blast
  have r0: "(0, 0) \<in> (childRel ?md [0, 1] ?rms ?h)\<^sup>*" by simp
  have "(0, 1) \<in> childRel ?md [0, 1] ?rms ?h"
    unfolding childRel_def by (simp only: nodeTree_children) simp
  then have r1: "(0, 1) \<in> (childRel ?md [0, 1] ?rms ?h)\<^sup>*" by blast
  have c: "treeChildrenProperty ?md = ''children''" by (simp add: nodeMetadata_def)
  from a r0 r1 have "getProp (h' 0) ''children'' = PRefs [1]" "getProp (h' 1) ''children'' = PRefs []"
    by (simp_all only: c nodeTree_children) (simp_all add: getProp_setProp)
  with b show ?thesis by blast
qed

end
